theory Spec2Isabelle
  imports Complex_Main
begin

section \<open>Common vocabulary of the embedding\<close>

text \<open>
  The repository builds Pyomo optimisation models. A module's rule functions read
  indexed components of the model object (sets, parameters, variables, expressions)
  and return a relation between expressions, or the marker that no constraint is
  built for the index. The embedding evaluates every variable at a candidate
  solution, so an expression is a real number and a built constraint is a relation
  between two reals. Reading an indexed component outside its index set raises in
  Pyomo; here it is an error value.
\<close>

type_synonym project = string
type_synonym period = int
type_synonym timepoint = int
type_synonym horizon = int
type_synonym zone = string

datatype error =
    KeyError
  | ZeroDivisionError
  | IndexError
  | AttributeError string
  | ValueError string
  | ValueError_missing_inputs "project set"

datatype constraint =
    Constraint_Skip
  | Rel_Le real real
  | Rel_Ge real real
  | Rel_Eq real real

fun satisfied :: "constraint \<Rightarrow> bool" where
  "satisfied Constraint_Skip = True"
| "satisfied (Rel_Le a b) = (a \<le> b)"
| "satisfied (Rel_Ge a b) = (a \<ge> b)"
| "satisfied (Rel_Eq a b) = (a = b)"

text \<open>Sequencing of computations that may raise.\<close>

definition bindE :: "error + 'a \<Rightarrow> ('a \<Rightarrow> error + 'b) \<Rightarrow> error + 'b" where
  "bindE x f = (case x of Inl e \<Rightarrow> Inl e | Inr v \<Rightarrow> f v)"

text \<open>\<open>param[k]\<close>: a parameter or expression indexed over the keys it was given.\<close>

definition getitem :: "('k \<rightharpoonup> 'v) \<Rightarrow> 'k \<Rightarrow> error + 'v" where
  "getitem m k = (case m k of None \<Rightarrow> Inl KeyError | Some v \<Rightarrow> Inr v)"

text \<open>\<open>Var[k]\<close>: a variable declared over an index set, read at a candidate solution.\<close>

definition getvar :: "'k list \<Rightarrow> ('k \<Rightarrow> real) \<Rightarrow> 'k \<Rightarrow> error + real" where
  "getvar idx val k = (if k \<in> set idx then Inr (val k) else Inl KeyError)"

text \<open>A comprehension whose body may raise: the first failure ends it.\<close>

fun mapE :: "('a \<Rightarrow> error + 'b) \<Rightarrow> 'a list \<Rightarrow> error + 'b list" where
  "mapE f [] = Inr []"
| "mapE f (x # xs) =
     (case f x of
        Inl e \<Rightarrow> Inl e
      | Inr y \<Rightarrow> (case mapE f xs of Inl e \<Rightarrow> Inl e | Inr ys \<Rightarrow> Inr (y # ys)))"

text \<open>Python's \<open>sum(f(x) for x in xs)\<close>: starts at 0 and adds the terms in order.\<close>

definition sumE :: "('a \<Rightarrow> error + real) \<Rightarrow> 'a list \<Rightarrow> error + real" where
  "sumE f xs = bindE (mapE f xs) (\<lambda>vs. Inr (foldl (+) 0 vs))"

text \<open>Division of an expression by a numeric parameter: a zero divisor raises.\<close>

definition divE :: "real \<Rightarrow> real \<Rightarrow> error + real" where
  "divE a b = (if b = 0 then Inl ZeroDivisionError else Inr (a / b))"

text \<open>
  \<open>Constraint(index_set, rule=r)\<close>: the rule is called on every index; the component
  keeps the index with what the rule returned.
\<close>

definition Constraint_block ::
  "'i list \<Rightarrow> ('i \<Rightarrow> error + constraint) \<Rightarrow> error + ('i \<times> constraint) list" where
  "Constraint_block idx rule = mapE (\<lambda>i. bindE (rule i) (\<lambda>c. Inr (i, c))) idx"

text \<open>\<open>getattr(mod, c)\<close>: a component of the model object, found by its name.\<close>

definition getattr :: "(string \<rightharpoonup> 'v) \<Rightarrow> string \<Rightarrow> error + 'v" where
  "getattr attrs c = (case attrs c of None \<Rightarrow> Inl (AttributeError c) | Some v \<Rightarrow> Inr v)"

text \<open>
  An index that is \<open>None\<close> belongs to no index set: the first component read at it
  raises \<open>KeyError\<close>.
\<close>

definition not_none :: "'a option \<Rightarrow> error + 'a" where
  "not_none x = (case x of None \<Rightarrow> Inl KeyError | Some v \<Rightarrow> Inr v)"

text \<open>The element before \<open>x\<close> in an ordered sequence, when there is one.\<close>

fun prev_in :: "'a list \<Rightarrow> 'a \<Rightarrow> 'a option" where
  "prev_in (a # b # xs) x = (if x = b then Some a else prev_in (b # xs) x)"
| "prev_in xs x = None"

definition newline :: string where
  "newline = [CHR 0x0A]"

definition squote :: string where
  "squote = [CHR 0x27]"


section \<open>The dynamic components object \<open>d\<close>\<close>

record dynamic_components =
  headroom_variables :: "project \<rightharpoonup> string list"
  footroom_variables :: "project \<rightharpoonup> string list"
  total_cost_components :: "string list"
  local_capacity_balance_provision_components :: "string list"
  capacity_type_operational_period_sets :: "string list"


section \<open>The temporal index and the project operations the modules read\<close>

text \<open>
  The components below are declared by modules of the repository that are not among
  the sources at hand (the temporal modules and the project capacity and operations
  modules); the operational types read them from the model object.
\<close>

record temporal_model =
  TIMEPOINTS_ON_HORIZON :: "horizon \<rightharpoonup> timepoint list"
  boundary :: "horizon \<rightharpoonup> string"
  horizon :: "timepoint \<rightharpoonup> horizon"
  period :: "timepoint \<rightharpoonup> period"
  number_of_hours_in_timepoint :: "timepoint \<rightharpoonup> real"

record operations_model = temporal_model +
  PROJECT_OPERATIONAL_TIMEPOINTS :: "(project \<times> timepoint) list"
  Capacity_MW :: "(project \<times> period) \<rightharpoonup> real"
  Energy_Capacity_MWh :: "(project \<times> period) \<rightharpoonup> real"

text \<open>
  Modelled from the spec: the temporal index's \<open>first_horizon_timepoint\<close> parameter
  (its module is not among the sources). A horizon is an ordered sequence of
  timepoints; its first timepoint is the head of the sequence, and a horizon without
  timepoints is not in the parameter's index.
\<close>

definition first_horizon_timepoint ::
  "'a temporal_model_scheme \<Rightarrow> horizon \<Rightarrow> error + timepoint" where
  "first_horizon_timepoint m h =
     (case TIMEPOINTS_ON_HORIZON m h of
        None \<Rightarrow> Inl KeyError
      | Some [] \<Rightarrow> Inl KeyError
      | Some (t # ts) \<Rightarrow> Inr t)"

text \<open>
  Modelled from the spec: the temporal index's \<open>previous_timepoint\<close> parameter (its
  module is not among the sources). The spec: "circular" means the horizon's last
  timepoint's successor is its own first timepoint; previous_timepoint returns none
  only when the timepoint is first in a linear-boundary horizon. Elsewhere it is the
  timepoint before in the horizon's sequence.
\<close>

definition previous_timepoint ::
  "'a temporal_model_scheme \<Rightarrow> timepoint \<Rightarrow> error + timepoint option" where
  "previous_timepoint m tmp =
     bindE (getitem (horizon m) tmp) (\<lambda>h.
     bindE (getitem (TIMEPOINTS_ON_HORIZON m) h) (\<lambda>tmps.
     bindE (first_horizon_timepoint m h) (\<lambda>ft.
       if tmp = ft then
         bindE (getitem (boundary m) h) (\<lambda>b.
           if b = ''circular'' then Inr (Some (last tmps)) else Inr None)
       else bindE (getitem (prev_in tmps) tmp) (\<lambda>prev. Inr (Some prev)))))"


section \<open>Operational type \<open>dr\<close> (gridpath/project/operations/operational_types/dr.py)\<close>

record dr_model = operations_model +
  DR :: "project list"
  FUEL_PROJECTS :: "project list"
  balancing_type_project :: "project \<rightharpoonup> string"
  horizon_by_balancing_type :: "(timepoint \<times> string) \<rightharpoonup> horizon"
  DR_Shift_Up_MW :: "project \<times> timepoint \<Rightarrow> real"
  DR_Shift_Down_MW :: "project \<times> timepoint \<Rightarrow> real"

text \<open>
  \<open>horizon_by_balancing_type\<close> is the parameter this module reads as
  \<open>mod.horizon[tmp, balancing_type]\<close>.
\<close>

definition DR_OPR_TMPS :: "dr_model \<Rightarrow> (project \<times> timepoint) list" where
  "DR_OPR_TMPS m =
     remdups (filter (\<lambda>(g, tmp). g \<in> set (DR m)) (PROJECT_OPERATIONAL_TIMEPOINTS m))"

definition DR_OPR_HRZS :: "dr_model \<Rightarrow> error + (project \<times> horizon) list" where
  "DR_OPR_HRZS m =
     bindE
       (mapE
          (\<lambda>(g, tmp).
             bindE (getitem (balancing_type_project m) g) (\<lambda>bt.
             bindE (getitem (horizon_by_balancing_type m) (tmp, bt)) (\<lambda>h. Inr (g, h))))
          (filter (\<lambda>(g, tmp). g \<in> set (DR m)) (PROJECT_OPERATIONAL_TIMEPOINTS m)))
       (\<lambda>ghs. Inr (remdups ghs))"

definition max_shift_up_rule :: "dr_model \<Rightarrow> project \<Rightarrow> timepoint \<Rightarrow> error + constraint" where
  "max_shift_up_rule m p tmp =
     bindE (getvar (DR_OPR_TMPS m) (DR_Shift_Up_MW m) (p, tmp)) (\<lambda>up.
     bindE (getitem (period m) tmp) (\<lambda>prd.
     bindE (getitem (Capacity_MW m) (p, prd)) (\<lambda>cap. Inr (Rel_Le up cap))))"

definition max_shift_down_rule :: "dr_model \<Rightarrow> project \<Rightarrow> timepoint \<Rightarrow> error + constraint" where
  "max_shift_down_rule m p tmp =
     bindE (getvar (DR_OPR_TMPS m) (DR_Shift_Down_MW m) (p, tmp)) (\<lambda>down.
     bindE (getitem (period m) tmp) (\<lambda>prd.
     bindE (getitem (Capacity_MW m) (p, prd)) (\<lambda>cap. Inr (Rel_Le down cap))))"

definition energy_balance_rule :: "dr_model \<Rightarrow> project \<Rightarrow> horizon \<Rightarrow> error + constraint" where
  "energy_balance_rule m p h =
     bindE (getitem (TIMEPOINTS_ON_HORIZON m) h) (\<lambda>tmps.
     bindE (sumE (\<lambda>tmp. getvar (DR_OPR_TMPS m) (DR_Shift_Up_MW m) (p, tmp)) tmps) (\<lambda>up.
     bindE (sumE (\<lambda>tmp. getvar (DR_OPR_TMPS m) (DR_Shift_Down_MW m) (p, tmp)) tmps) (\<lambda>down.
     Inr (Rel_Eq up down))))"

definition energy_budget_rule :: "dr_model \<Rightarrow> project \<Rightarrow> horizon \<Rightarrow> error + constraint" where
  "energy_budget_rule m p h =
     bindE (getitem (TIMEPOINTS_ON_HORIZON m) h) (\<lambda>tmps.
     bindE (sumE (\<lambda>tmp.
              bindE (getvar (DR_OPR_TMPS m) (DR_Shift_Up_MW m) (p, tmp)) (\<lambda>up.
              bindE (getitem (number_of_hours_in_timepoint m) tmp) (\<lambda>hrs. Inr (up * hrs))))
            tmps) (\<lambda>shifted.
     bindE (first_horizon_timepoint m h) (\<lambda>ft.
     bindE (getitem (period m) ft) (\<lambda>prd.
     bindE (getitem (Energy_Capacity_MWh m) (p, prd)) (\<lambda>budget.
     Inr (Rel_Eq shifted budget))))))"

record dr_components =
  DR_Max_Shift_Up_Constraint :: "((project \<times> timepoint) \<times> constraint) list"
  DR_Max_Shift_Down_Constraint :: "((project \<times> timepoint) \<times> constraint) list"
  DR_Energy_Balance_Constraint :: "((project \<times> horizon) \<times> constraint) list"
  DR_Energy_Budget_Constraint :: "((project \<times> horizon) \<times> constraint) list"

definition dr_add_module_specific_components :: "dr_model \<Rightarrow> error + dr_components" where
  "dr_add_module_specific_components m =
     bindE (DR_OPR_HRZS m) (\<lambda>hrzs.
     bindE (Constraint_block (DR_OPR_TMPS m) (\<lambda>(p, tmp). max_shift_up_rule m p tmp)) (\<lambda>c1.
     bindE (Constraint_block (DR_OPR_TMPS m) (\<lambda>(p, tmp). max_shift_down_rule m p tmp)) (\<lambda>c2.
     bindE (Constraint_block hrzs (\<lambda>(p, h). energy_balance_rule m p h)) (\<lambda>c3.
     bindE (Constraint_block hrzs (\<lambda>(p, h). energy_budget_rule m p h)) (\<lambda>c4.
     Inr \<lparr>DR_Max_Shift_Up_Constraint = c1, DR_Max_Shift_Down_Constraint = c2,
          DR_Energy_Balance_Constraint = c3, DR_Energy_Budget_Constraint = c4\<rparr>)))))"

text \<open>The variables are declared within \<open>NonNegativeReals\<close>.\<close>

definition dr_variable_domains :: "dr_model \<Rightarrow> bool" where
  "dr_variable_domains m =
     list_all (\<lambda>k. 0 \<le> DR_Shift_Up_MW m k \<and> 0 \<le> DR_Shift_Down_MW m k) (DR_OPR_TMPS m)"

definition power_provision_rule :: "dr_model \<Rightarrow> project \<Rightarrow> timepoint \<Rightarrow> error + real" where
  "power_provision_rule m p tmp =
     bindE (getvar (DR_OPR_TMPS m) (DR_Shift_Down_MW m) (p, tmp)) (\<lambda>down.
     bindE (getvar (DR_OPR_TMPS m) (DR_Shift_Up_MW m) (p, tmp)) (\<lambda>up. Inr (down - up)))"

definition fuel_burn_rule ::
  "dr_model \<Rightarrow> project \<Rightarrow> timepoint \<Rightarrow> string \<Rightarrow> error + real" where
  "fuel_burn_rule m p tmp error_message =
     (if p \<in> set (FUEL_PROJECTS m) then
        Inl (ValueError
          (''ERROR! Shiftable load projects should not use fuel.'' @ newline @
           ''Check input data for project '' @ squote @ p @ squote @ newline @
           ''and change its fuel to '.' (no value).''))
      else Inl (ValueError error_message))"

definition startup_shutdown_rule ::
  "dr_model \<Rightarrow> project \<Rightarrow> timepoint \<Rightarrow> error + real" where
  "startup_shutdown_rule m p tmp =
     Inl (ValueError
       (''ERROR! Shiftable load projects should not incur startup/shutdown costs.'' @ newline @
        ''Check input data for project '' @ squote @ p @ squote @ newline @
        ''and change its startup/shutdown costs to '.' (no value).''))"


section \<open>Operational type \<open>storage_generic\<close>
  (gridpath/project/operations/operational_types/storage_generic.py)\<close>

record storage_model = operations_model +
  STORAGE_GENERIC_PROJECTS :: "project list"
  storage_generic_charging_efficiency :: "project \<rightharpoonup> real"
  storage_generic_discharging_efficiency :: "project \<rightharpoonup> real"
  Generic_Storage_Discharge_MW :: "project \<times> timepoint \<Rightarrow> real"
  Generic_Storage_Charge_MW :: "project \<times> timepoint \<Rightarrow> real"
  Starting_Energy_in_Generic_Storage_MWh :: "project \<times> timepoint \<Rightarrow> real"
  reserve_provision_variables :: "string \<rightharpoonup> ((project \<times> timepoint) \<rightharpoonup> real)"

text \<open>
  \<open>reserve_provision_variables\<close> are the components of the model object that the
  reserve modules declare and register by name in \<open>headroom_variables\<close> and
  \<open>footroom_variables\<close>; the rules find them with \<open>getattr(mod, c)\<close>.
\<close>

definition STORAGE_GENERIC_PROJECT_OPERATIONAL_TIMEPOINTS ::
  "storage_model \<Rightarrow> (project \<times> timepoint) list" where
  "STORAGE_GENERIC_PROJECT_OPERATIONAL_TIMEPOINTS m =
     remdups (filter (\<lambda>(g, tmp). g \<in> set (STORAGE_GENERIC_PROJECTS m))
       (PROJECT_OPERATIONAL_TIMEPOINTS m))"

text \<open>
  Reading the three variables at an index: \<open>mod.Generic_Storage_Discharge_MW[s, tmp]\<close>,
  \<open>mod.Generic_Storage_Charge_MW[s, tmp]\<close> and
  \<open>mod.Starting_Energy_in_Generic_Storage_MWh[s, tmp]\<close>.
\<close>

definition Discharge :: "storage_model \<Rightarrow> project \<times> timepoint \<Rightarrow> error + real" where
  "Discharge m k =
     getvar (STORAGE_GENERIC_PROJECT_OPERATIONAL_TIMEPOINTS m) (Generic_Storage_Discharge_MW m) k"

definition Charge :: "storage_model \<Rightarrow> project \<times> timepoint \<Rightarrow> error + real" where
  "Charge m k =
     getvar (STORAGE_GENERIC_PROJECT_OPERATIONAL_TIMEPOINTS m) (Generic_Storage_Charge_MW m) k"

definition Starting_Energy :: "storage_model \<Rightarrow> project \<times> timepoint \<Rightarrow> error + real" where
  "Starting_Energy m k =
     getvar (STORAGE_GENERIC_PROJECT_OPERATIONAL_TIMEPOINTS m)
       (Starting_Energy_in_Generic_Storage_MWh m) k"

text \<open>\<open>sum(getattr(mod, c)[s, tmp] for c in names)\<close>\<close>

definition sum_reserves ::
  "storage_model \<Rightarrow> string list \<Rightarrow> project \<Rightarrow> timepoint \<Rightarrow> error + real" where
  "sum_reserves m names s tmp =
     sumE (\<lambda>c. bindE (getattr (reserve_provision_variables m) c) (\<lambda>v. getitem v (s, tmp))) names"

definition max_discharge_rule :: "storage_model \<Rightarrow> project \<Rightarrow> timepoint \<Rightarrow> error + constraint" where
  "max_discharge_rule m s tmp =
     bindE (Discharge m (s, tmp)) (\<lambda>dis.
     bindE (getitem (period m) tmp) (\<lambda>prd.
     bindE (getitem (Capacity_MW m) (s, prd)) (\<lambda>cap. Inr (Rel_Le dis cap))))"

definition max_charge_rule :: "storage_model \<Rightarrow> project \<Rightarrow> timepoint \<Rightarrow> error + constraint" where
  "max_charge_rule m s tmp =
     bindE (Charge m (s, tmp)) (\<lambda>ch.
     bindE (getitem (period m) tmp) (\<lambda>prd.
     bindE (getitem (Capacity_MW m) (s, prd)) (\<lambda>cap. Inr (Rel_Le ch cap))))"

definition max_headroom_power_rule ::
  "storage_model \<Rightarrow> dynamic_components \<Rightarrow> project \<Rightarrow> timepoint \<Rightarrow> error + constraint" where
  "max_headroom_power_rule m d s tmp =
     bindE (getitem (headroom_variables d) s) (\<lambda>names.
     bindE (sum_reserves m names s tmp) (\<lambda>res.
     bindE (getitem (period m) tmp) (\<lambda>prd.
     bindE (getitem (Capacity_MW m) (s, prd)) (\<lambda>cap.
     bindE (Discharge m (s, tmp)) (\<lambda>dis.
     bindE (Charge m (s, tmp)) (\<lambda>ch.
     Inr (Rel_Le res (cap - dis + ch))))))))"

definition max_footroom_power_rule ::
  "storage_model \<Rightarrow> dynamic_components \<Rightarrow> project \<Rightarrow> timepoint \<Rightarrow> error + constraint" where
  "max_footroom_power_rule m d s tmp =
     bindE (getitem (footroom_variables d) s) (\<lambda>names.
     bindE (sum_reserves m names s tmp) (\<lambda>res.
     bindE (Discharge m (s, tmp)) (\<lambda>dis.
     bindE (getitem (period m) tmp) (\<lambda>prd.
     bindE (getitem (Capacity_MW m) (s, prd)) (\<lambda>cap.
     bindE (Charge m (s, tmp)) (\<lambda>ch.
     Inr (Rel_Le res (dis + cap - ch))))))))"

definition max_headroom_energy_rule ::
  "storage_model \<Rightarrow> dynamic_components \<Rightarrow> project \<Rightarrow> timepoint \<Rightarrow> error + constraint" where
  "max_headroom_energy_rule m d s tmp =
     bindE (getitem (headroom_variables d) s) (\<lambda>names.
     bindE (sum_reserves m names s tmp) (\<lambda>res.
     bindE (getitem (number_of_hours_in_timepoint m) tmp) (\<lambda>hrs.
     bindE (getitem (storage_generic_discharging_efficiency m) s) (\<lambda>de.
     bindE (divE (res * hrs) de) (\<lambda>lhs.
     bindE (Starting_Energy m (s, tmp)) (\<lambda>soc.
     bindE (Charge m (s, tmp)) (\<lambda>ch.
     bindE (getitem (storage_generic_charging_efficiency m) s) (\<lambda>ce.
     bindE (Discharge m (s, tmp)) (\<lambda>dis.
     bindE (divE (dis * hrs) de) (\<lambda>out.
     Inr (Rel_Le lhs (soc + ch * hrs * ce - out))))))))))))"

definition max_footroom_energy_rule ::
  "storage_model \<Rightarrow> dynamic_components \<Rightarrow> project \<Rightarrow> timepoint \<Rightarrow> error + constraint" where
  "max_footroom_energy_rule m d s tmp =
     bindE (getitem (headroom_variables d) s) (\<lambda>names.
     bindE (sum_reserves m names s tmp) (\<lambda>res.
     bindE (getitem (number_of_hours_in_timepoint m) tmp) (\<lambda>hrs.
     bindE (getitem (storage_generic_charging_efficiency m) s) (\<lambda>ce.
     bindE (getitem (period m) tmp) (\<lambda>prd.
     bindE (getitem (Capacity_MW m) (s, prd)) (\<lambda>cap.
     bindE (Starting_Energy m (s, tmp)) (\<lambda>soc.
     bindE (Charge m (s, tmp)) (\<lambda>ch.
     bindE (Discharge m (s, tmp)) (\<lambda>dis.
     bindE (getitem (storage_generic_discharging_efficiency m) s) (\<lambda>de.
     bindE (divE (dis * hrs) de) (\<lambda>out.
     Inr (Rel_Le (res * hrs * ce) (cap - soc - ch * hrs * ce + out)))))))))))))"

definition energy_tracking_rule ::
  "storage_model \<Rightarrow> project \<Rightarrow> timepoint \<Rightarrow> error + constraint" where
  "energy_tracking_rule m s tmp =
     bindE (getitem (horizon m) tmp) (\<lambda>h.
     bindE (first_horizon_timepoint m h) (\<lambda>ft.
     bindE (if tmp = ft then bindE (getitem (boundary m) h) (\<lambda>b. Inr (b = ''linear''))
            else Inr False) (\<lambda>skip.
     if skip then Inr Constraint_Skip
     else
       bindE (Starting_Energy m (s, tmp)) (\<lambda>soc.
       bindE (previous_timepoint m tmp) (\<lambda>prev_opt.
       bindE (not_none prev_opt) (\<lambda>prev.
       bindE (Starting_Energy m (s, prev)) (\<lambda>soc_prev.
       bindE (Charge m (s, prev)) (\<lambda>ch.
       bindE (getitem (number_of_hours_in_timepoint m) prev) (\<lambda>hrs.
       bindE (getitem (storage_generic_charging_efficiency m) s) (\<lambda>ce.
       bindE (Discharge m (s, prev)) (\<lambda>dis.
       bindE (getitem (storage_generic_discharging_efficiency m) s) (\<lambda>de.
       bindE (divE (dis * hrs) de) (\<lambda>out.
       Inr (Rel_Eq soc (soc_prev + ch * hrs * ce - out)))))))))))))))"

definition max_energy_in_storage_rule ::
  "storage_model \<Rightarrow> project \<Rightarrow> timepoint \<Rightarrow> error + constraint" where
  "max_energy_in_storage_rule m s tmp =
     bindE (Starting_Energy m (s, tmp)) (\<lambda>soc.
     bindE (getitem (period m) tmp) (\<lambda>prd.
     bindE (getitem (Energy_Capacity_MWh m) (s, prd)) (\<lambda>cap. Inr (Rel_Le soc cap))))"

record storage_components =
  Storage_Max_Discharge_Constraint :: "((project \<times> timepoint) \<times> constraint) list"
  Storage_Generic_Max_Charge_Constraint :: "((project \<times> timepoint) \<times> constraint) list"
  Storage_Generic_Max_Headroom_Power_Constraint :: "((project \<times> timepoint) \<times> constraint) list"
  Storage_Generic_Max_Footroom_Power_Constraint :: "((project \<times> timepoint) \<times> constraint) list"
  Storage_Generic_Max_Headroom_Energy_Constraint :: "((project \<times> timepoint) \<times> constraint) list"
  Storage_Generic_Max_Footroom_Energy_Constraint :: "((project \<times> timepoint) \<times> constraint) list"
  Storage_Generic_Energy_Tracking_Constraint :: "((project \<times> timepoint) \<times> constraint) list"
  Max_Energy_in_Generic_Storage_Constraint :: "((project \<times> timepoint) \<times> constraint) list"

definition storage_add_module_specific_components ::
  "storage_model \<Rightarrow> dynamic_components \<Rightarrow> error + storage_components" where
  "storage_add_module_specific_components m d =
     (let idx = STORAGE_GENERIC_PROJECT_OPERATIONAL_TIMEPOINTS m in
      bindE (Constraint_block idx (\<lambda>(s, tmp). max_discharge_rule m s tmp)) (\<lambda>c1.
      bindE (Constraint_block idx (\<lambda>(s, tmp). max_charge_rule m s tmp)) (\<lambda>c2.
      bindE (Constraint_block idx (\<lambda>(s, tmp). max_headroom_power_rule m d s tmp)) (\<lambda>c3.
      bindE (Constraint_block idx (\<lambda>(s, tmp). max_footroom_power_rule m d s tmp)) (\<lambda>c4.
      bindE (Constraint_block idx (\<lambda>(s, tmp). max_headroom_energy_rule m d s tmp)) (\<lambda>c5.
      bindE (Constraint_block idx (\<lambda>(s, tmp). max_footroom_energy_rule m d s tmp)) (\<lambda>c6.
      bindE (Constraint_block idx (\<lambda>(s, tmp). energy_tracking_rule m s tmp)) (\<lambda>c7.
      bindE (Constraint_block idx (\<lambda>(s, tmp). max_energy_in_storage_rule m s tmp)) (\<lambda>c8.
      Inr \<lparr>Storage_Max_Discharge_Constraint = c1,
           Storage_Generic_Max_Charge_Constraint = c2,
           Storage_Generic_Max_Headroom_Power_Constraint = c3,
           Storage_Generic_Max_Footroom_Power_Constraint = c4,
           Storage_Generic_Max_Headroom_Energy_Constraint = c5,
           Storage_Generic_Max_Footroom_Energy_Constraint = c6,
           Storage_Generic_Energy_Tracking_Constraint = c7,
           Max_Energy_in_Generic_Storage_Constraint = c8\<rparr>)))))))))"

text \<open>The three variables are declared within \<open>NonNegativeReals\<close>.\<close>

definition storage_variable_domains :: "storage_model \<Rightarrow> bool" where
  "storage_variable_domains m =
     list_all
       (\<lambda>k. 0 \<le> Generic_Storage_Discharge_MW m k \<and> 0 \<le> Generic_Storage_Charge_MW m k \<and>
            0 \<le> Starting_Energy_in_Generic_Storage_MWh m k)
       (STORAGE_GENERIC_PROJECT_OPERATIONAL_TIMEPOINTS m)"


text \<open>
  The footroom energy bound in the words of the claim: the registered footroom
  variables, converted to energy with the charging efficiency, against the energy
  capacity less the state of charge net of the timepoint's charging and discharging.
\<close>

definition footroom_energy_bound_as_claimed ::
  "storage_model \<Rightarrow> dynamic_components \<Rightarrow> project \<Rightarrow> timepoint \<Rightarrow> error + constraint" where
  "footroom_energy_bound_as_claimed m d s tmp =
     bindE (getitem (footroom_variables d) s) (\<lambda>names.
     bindE (sum_reserves m names s tmp) (\<lambda>res.
     bindE (getitem (number_of_hours_in_timepoint m) tmp) (\<lambda>hrs.
     bindE (getitem (storage_generic_charging_efficiency m) s) (\<lambda>ce.
     bindE (getitem (period m) tmp) (\<lambda>prd.
     bindE (getitem (Energy_Capacity_MWh m) (s, prd)) (\<lambda>cap.
     bindE (Starting_Energy m (s, tmp)) (\<lambda>soc.
     bindE (Charge m (s, tmp)) (\<lambda>ch.
     bindE (Discharge m (s, tmp)) (\<lambda>dis.
     bindE (getitem (storage_generic_discharging_efficiency m) s) (\<lambda>de.
     bindE (divE (dis * hrs) de) (\<lambda>out.
     Inr (Rel_Le (res * hrs * ce) (cap - soc - ch * hrs * ce + out)))))))))))))"


section \<open>Capacity type \<open>gen_ret_bin\<close>
  (gridpath/project/capacity/capacity_types/gen_ret_bin.py)\<close>

record gen_ret_bin_model =
  PERIODS :: "period list"
  GEN_RET_BIN_OPR_PRDS :: "(project \<times> period) list"
  gen_ret_bin_capacity_mw :: "(project \<times> period) \<rightharpoonup> real"
  gen_ret_bin_fixed_cost_per_mw_yr :: "(project \<times> period) \<rightharpoonup> real"
  GenRetBin_Retire :: "project \<times> period \<Rightarrow> real"







text \<open>Reading the variable at an index: \<open>mod.GenRetBin_Retire[g, p]\<close>.\<close>

definition Retire :: "gen_ret_bin_model \<Rightarrow> project \<times> period \<Rightarrow> error + real" where
  "Retire m k = getvar (GEN_RET_BIN_OPR_PRDS m) (GenRetBin_Retire m) k"


definition capacity_rule :: "gen_ret_bin_model \<Rightarrow> project \<Rightarrow> period \<Rightarrow> error + real" where
  "capacity_rule m g p =
     bindE (getitem (gen_ret_bin_capacity_mw m) (g, p)) (\<lambda>cap.
     bindE (Retire m (g, p)) (\<lambda>r. Inr (cap * (1 - r))))"

definition capacity_cost_rule :: "gen_ret_bin_model \<Rightarrow> project \<Rightarrow> period \<Rightarrow> error + real" where
  "capacity_cost_rule m g p =
     bindE (getitem (gen_ret_bin_fixed_cost_per_mw_yr m) (g, p)) (\<lambda>cost.
     bindE (getitem (gen_ret_bin_capacity_mw m) (g, p)) (\<lambda>cap.
     bindE (Retire m (g, p)) (\<lambda>r. Inr (cost * cap * (1 - r)))))"

definition new_capacity_rule :: "gen_ret_bin_model \<Rightarrow> project \<Rightarrow> period \<Rightarrow> error + real" where
  "new_capacity_rule m g p = Inr 0"



subsection \<open>Loading the inputs of \<open>gen_ret_bin\<close>\<close>

text \<open>
  \<open>load_module_specific_data\<close> reads two tab files. The model takes what was read:
  the projects of \<open>projects.tab\<close> with their capacity types, and the rows of
  \<open>specified_generation_period_params.tab\<close> (project, period, specified_capacity_mw,
  fixed_cost_per_mw_yr).
\<close>

definition determine_gen_ret_bin_projects :: "(project \<times> string) list \<Rightarrow> project list" where
  "determine_gen_ret_bin_projects projects_tab =
     map fst (filter (\<lambda>row. snd row = ''gen_ret_bin'') projects_tab)"

type_synonym period_params =
  "(project \<times> period) list \<times> ((project \<times> period) \<rightharpoonup> real) \<times> ((project \<times> period) \<rightharpoonup> real)"

fun period_params_rows ::
  "project list \<Rightarrow> (project \<times> period \<times> real \<times> real) list \<Rightarrow> period_params \<Rightarrow> period_params" where
  "period_params_rows generators_list [] acc = acc"
| "period_params_rows generators_list ((prj, prd, cap, cost) # rows) (gpl, cap_dict, cost_dict) =
     (if prj \<in> set generators_list then
        period_params_rows generators_list rows
          (gpl @ [(prj, prd)], cap_dict((prj, prd) \<mapsto> cap), cost_dict((prj, prd) \<mapsto> cost))
      else period_params_rows generators_list rows (gpl, cap_dict, cost_dict))"

text \<open>
  The error's message is a fixed text followed by the list \<open>diff\<close>, made from a Python
  set and so in no specified order; the model keeps the elements of the list.
\<close>

definition determine_period_params ::
  "(project \<times> string) list \<Rightarrow> (project \<times> period \<times> real \<times> real) list \<Rightarrow> error + period_params" where
  "determine_period_params projects_tab rows =
     (let generators_list = determine_gen_ret_bin_projects projects_tab;
          result = period_params_rows generators_list rows ([], Map.empty, Map.empty);
          gen_w_params = map fst (fst result);
          diff = filter (\<lambda>g. g \<notin> set gen_w_params) (remdups generators_list)
      in if diff \<noteq> [] then Inl (ValueError_missing_inputs (set diff)) else Inr result)"

definition gen_ret_bin_load_module_specific_data ::
  "(project \<times> string) list \<Rightarrow> (project \<times> period \<times> real \<times> real) list \<Rightarrow> error + period_params" where
  "gen_ret_bin_load_module_specific_data projects_tab rows =
     bindE (determine_period_params projects_tab rows) (\<lambda>r0.
     bindE (determine_period_params projects_tab rows) (\<lambda>r1.
     bindE (determine_period_params projects_tab rows) (\<lambda>r2.
     Inr (fst r0, fst (snd r1), snd (snd r2)))))"

text \<open>
  The condition of the spec on missing inputs, in its own words: required per-period
  data is absent for at least one of the (project, period) pairs the projects are to
  operate in.
\<close>

definition missing_period_data ::
  "(project \<times> period \<times> real \<times> real) list \<Rightarrow> (project \<times> period) list \<Rightarrow> bool" where
  "missing_period_data rows operational_periods =
     list_ex (\<lambda>k. k \<notin> set (map (\<lambda>(prj, prd, cap, cost). (prj, prd)) rows)) operational_periods"


section \<open>Local capacity balance
  (gridpath/system/reliability/local_capacity/local_capacity_balance.py)\<close>

record local_capacity_model =
  LOCAL_CAPACITY_ZONES :: "zone list"
  LOCAL_CAPACITY_ZONE_PERIODS_WITH_REQUIREMENT :: "(zone \<times> period) list"
  local_capacity_requirement_mw :: "(zone \<times> period) \<rightharpoonup> real"
  local_capacity_shortage_penalty_per_mw :: "zone \<rightharpoonup> real"
  Local_Capacity_Shortage_MW :: "zone \<times> period \<Rightarrow> real"
  local_capacity_provision :: "string \<rightharpoonup> ((zone \<times> period) \<rightharpoonup> real)"

text \<open>
  \<open>local_capacity_provision\<close> are the components of the model object that other
  modules declare and register by name in
  \<open>local_capacity_balance_provision_components\<close>.
\<close>

definition Total_Local_Capacity_from_All_Sources_Expression_MW ::
  "local_capacity_model \<Rightarrow> dynamic_components \<Rightarrow> zone \<times> period \<Rightarrow> error + real" where
  "Total_Local_Capacity_from_All_Sources_Expression_MW m d k =
     (if k \<in> set (LOCAL_CAPACITY_ZONE_PERIODS_WITH_REQUIREMENT m) then
        sumE (\<lambda>component.
                bindE (getattr (local_capacity_provision m) component) (\<lambda>v. getitem v k))
          (local_capacity_balance_provision_components d)
      else Inl KeyError)"

definition local_capacity_requirement_rule ::
  "local_capacity_model \<Rightarrow> dynamic_components \<Rightarrow> zone \<Rightarrow> period \<Rightarrow> error + constraint" where
  "local_capacity_requirement_rule m d z p =
     bindE (Total_Local_Capacity_from_All_Sources_Expression_MW m d (z, p)) (\<lambda>total.
     bindE (getvar (LOCAL_CAPACITY_ZONE_PERIODS_WITH_REQUIREMENT m)
              (Local_Capacity_Shortage_MW m) (z, p)) (\<lambda>shortage.
     bindE (getitem (local_capacity_requirement_mw m) (z, p)) (\<lambda>req.
     Inr (Rel_Ge (total + shortage) req))))"

definition local_capacity_add_model_components ::
  "local_capacity_model \<Rightarrow> dynamic_components \<Rightarrow> error + ((zone \<times> period) \<times> constraint) list" where
  "local_capacity_add_model_components m d =
     Constraint_block (LOCAL_CAPACITY_ZONE_PERIODS_WITH_REQUIREMENT m)
       (\<lambda>(z, p). local_capacity_requirement_rule m d z p)"

text \<open>The shortage variable is declared within \<open>NonNegativeReals\<close>.\<close>

definition local_capacity_variable_domains :: "local_capacity_model \<Rightarrow> bool" where
  "local_capacity_variable_domains m =
     list_all (\<lambda>k. 0 \<le> Local_Capacity_Shortage_MW m k)
       (LOCAL_CAPACITY_ZONE_PERIODS_WITH_REQUIREMENT m)"


text \<open>
  The value of a registered component at an index (0 where it has none), and the
  condition that every registered component is on the model and has the index.
\<close>

definition contribution :: "local_capacity_model \<Rightarrow> string \<Rightarrow> zone \<times> period \<Rightarrow> real" where
  "contribution m c k =
     (case local_capacity_provision m c of
        None \<Rightarrow> 0
      | Some v \<Rightarrow> (case v k of None \<Rightarrow> 0 | Some x \<Rightarrow> x))"

definition registered_contributions_defined ::
  "local_capacity_model \<Rightarrow> dynamic_components \<Rightarrow> zone \<times> period \<Rightarrow> bool" where
  "registered_contributions_defined m d k =
     list_all (\<lambda>c. case local_capacity_provision m c of None \<Rightarrow> False | Some v \<Rightarrow> v k \<noteq> None)
       (local_capacity_balance_provision_components d)"


section \<open>The objective (modules/objective/min_total_cost.py) and a module that
  contributes to it (gridpath/objective/system/reserve_violation_penalties/frequency_response.py)\<close>

datatype sense = minimize | maximize














section \<open>Concrete models used to exercise the theorems\<close>

definition dr_example :: dr_model where
  "dr_example =
     \<lparr>TIMEPOINTS_ON_HORIZON = [1 \<mapsto> [1, 2]],
      boundary = [1 \<mapsto> ''circular''],
      horizon = [1 \<mapsto> 1, 2 \<mapsto> 1],
      period = [1 \<mapsto> 2020, 2 \<mapsto> 2020],
      number_of_hours_in_timepoint = [1 \<mapsto> 1, 2 \<mapsto> 2],
      PROJECT_OPERATIONAL_TIMEPOINTS = [(''Shift_DR'', 1), (''Shift_DR'', 2)],
      Capacity_MW = [(''Shift_DR'', 2020) \<mapsto> 10],
      Energy_Capacity_MWh = [(''Shift_DR'', 2020) \<mapsto> 8],
      DR = [''Shift_DR''],
      FUEL_PROJECTS = [],
      balancing_type_project = [''Shift_DR'' \<mapsto> ''day''],
      horizon_by_balancing_type = [(1, ''day'') \<mapsto> 1, (2, ''day'') \<mapsto> 1],
      DR_Shift_Up_MW = (\<lambda>k. if k = (''Shift_DR'', 1) then 4 else if k = (''Shift_DR'', 2) then 2 else 0),
      DR_Shift_Down_MW = (\<lambda>k. if k = (''Shift_DR'', 1) then 1 else if k = (''Shift_DR'', 2) then 5 else 0)\<rparr>"

definition dr_example_components :: dr_components where
  "dr_example_components =
     \<lparr>DR_Max_Shift_Up_Constraint =
        [((''Shift_DR'', 1), Rel_Le 4 10), ((''Shift_DR'', 2), Rel_Le 2 10)],
      DR_Max_Shift_Down_Constraint =
        [((''Shift_DR'', 1), Rel_Le 1 10), ((''Shift_DR'', 2), Rel_Le 5 10)],
      DR_Energy_Balance_Constraint = [((''Shift_DR'', 1), Rel_Eq 6 6)],
      DR_Energy_Budget_Constraint = [((''Shift_DR'', 1), Rel_Eq 8 8)]\<rparr>"




definition retire_in_period_2 :: gen_ret_bin_model where
  "retire_in_period_2 =
     \<lparr>PERIODS = [1, 2],
      GEN_RET_BIN_OPR_PRDS = [(''Gas_CCGT'', 1), (''Gas_CCGT'', 2)],
      gen_ret_bin_capacity_mw = [(''Gas_CCGT'', 1) \<mapsto> 100, (''Gas_CCGT'', 2) \<mapsto> 100],
      gen_ret_bin_fixed_cost_per_mw_yr = [(''Gas_CCGT'', 1) \<mapsto> 10, (''Gas_CCGT'', 2) \<mapsto> 10],
      GenRetBin_Retire = (\<lambda>k. if k = (''Gas_CCGT'', 2) then 1 else 0)\<rparr>"

definition storage_example :: storage_model where
  "storage_example =
     \<lparr>TIMEPOINTS_ON_HORIZON = [1 \<mapsto> [1, 2]],
      boundary = [1 \<mapsto> ''circular''],
      horizon = [1 \<mapsto> 1, 2 \<mapsto> 1],
      period = [1 \<mapsto> 2020, 2 \<mapsto> 2020],
      number_of_hours_in_timepoint = [1 \<mapsto> 1, 2 \<mapsto> 1],
      PROJECT_OPERATIONAL_TIMEPOINTS = [(''Battery'', 1), (''Battery'', 2)],
      Capacity_MW = [(''Battery'', 2020) \<mapsto> 10],
      Energy_Capacity_MWh = [(''Battery'', 2020) \<mapsto> 10],
      STORAGE_GENERIC_PROJECTS = [''Battery''],
      storage_generic_charging_efficiency = [''Battery'' \<mapsto> 1 / 2],
      storage_generic_discharging_efficiency = [''Battery'' \<mapsto> 1 / 2],
      Generic_Storage_Discharge_MW = (\<lambda>k. if k = (''Battery'', 2) then 1 / 2 else 0),
      Generic_Storage_Charge_MW = (\<lambda>k. if k = (''Battery'', 1) then 2 else 0),
      Starting_Energy_in_Generic_Storage_MWh = (\<lambda>k. if k = (''Battery'', 1) then 4 else 5),
      reserve_provision_variables =
        [''Provide_Regulation_Up_MW'' \<mapsto> [(''Battery'', 1) \<mapsto> 1, (''Battery'', 2) \<mapsto> 1],
         ''Provide_Regulation_Down_MW'' \<mapsto> [(''Battery'', 1) \<mapsto> 1, (''Battery'', 2) \<mapsto> 1]]\<rparr>"

definition storage_example_d :: dynamic_components where
  "storage_example_d =
     \<lparr>headroom_variables = [''Battery'' \<mapsto> [''Provide_Regulation_Up_MW'']],
      footroom_variables = [''Battery'' \<mapsto> [''Provide_Regulation_Down_MW'']],
      total_cost_components = [], local_capacity_balance_provision_components = [],
      capacity_type_operational_period_sets = []\<rparr>"

definition storage_example_components :: storage_components where
  "storage_example_components =
     \<lparr>Storage_Max_Discharge_Constraint =
        [((''Battery'', 1), Rel_Le 0 10), ((''Battery'', 2), Rel_Le (1 / 2) 10)],
      Storage_Generic_Max_Charge_Constraint =
        [((''Battery'', 1), Rel_Le 2 10), ((''Battery'', 2), Rel_Le 0 10)],
      Storage_Generic_Max_Headroom_Power_Constraint =
        [((''Battery'', 1), Rel_Le 1 12), ((''Battery'', 2), Rel_Le 1 (19 / 2))],
      Storage_Generic_Max_Footroom_Power_Constraint =
        [((''Battery'', 1), Rel_Le 1 8), ((''Battery'', 2), Rel_Le 1 (21 / 2))],
      Storage_Generic_Max_Headroom_Energy_Constraint =
        [((''Battery'', 1), Rel_Le 2 5), ((''Battery'', 2), Rel_Le 2 4)],
      Storage_Generic_Max_Footroom_Energy_Constraint =
        [((''Battery'', 1), Rel_Le (1 / 2) 5), ((''Battery'', 2), Rel_Le (1 / 2) 6)],
      Storage_Generic_Energy_Tracking_Constraint =
        [((''Battery'', 1), Rel_Eq 4 4), ((''Battery'', 2), Rel_Eq 5 5)],
      Max_Energy_in_Generic_Storage_Constraint =
        [((''Battery'', 1), Rel_Le 4 10), ((''Battery'', 2), Rel_Le 5 10)]\<rparr>"

definition full_storage_example :: storage_model where
  "full_storage_example =
     \<lparr>TIMEPOINTS_ON_HORIZON = [1 \<mapsto> [1]],
      boundary = [1 \<mapsto> ''linear''],
      horizon = [1 \<mapsto> 1],
      period = [1 \<mapsto> 2020],
      number_of_hours_in_timepoint = [1 \<mapsto> 1],
      PROJECT_OPERATIONAL_TIMEPOINTS = [(''Battery'', 1)],
      Capacity_MW = [(''Battery'', 2020) \<mapsto> 100],
      Energy_Capacity_MWh = [(''Battery'', 2020) \<mapsto> 10],
      STORAGE_GENERIC_PROJECTS = [''Battery''],
      storage_generic_charging_efficiency = [''Battery'' \<mapsto> 1],
      storage_generic_discharging_efficiency = [''Battery'' \<mapsto> 1],
      Generic_Storage_Discharge_MW = (\<lambda>k. 0),
      Generic_Storage_Charge_MW = (\<lambda>k. 0),
      Starting_Energy_in_Generic_Storage_MWh = (\<lambda>k. 10),
      reserve_provision_variables =
        [''Provide_Regulation_Up_MW'' \<mapsto> [(''Battery'', 1) \<mapsto> 0],
         ''Provide_Regulation_Down_MW'' \<mapsto> [(''Battery'', 1) \<mapsto> 50]]\<rparr>"

definition full_storage_example_components :: storage_components where
  "full_storage_example_components =
     \<lparr>Storage_Max_Discharge_Constraint = [((''Battery'', 1), Rel_Le 0 100)],
      Storage_Generic_Max_Charge_Constraint = [((''Battery'', 1), Rel_Le 0 100)],
      Storage_Generic_Max_Headroom_Power_Constraint = [((''Battery'', 1), Rel_Le 0 100)],
      Storage_Generic_Max_Footroom_Power_Constraint = [((''Battery'', 1), Rel_Le 50 100)],
      Storage_Generic_Max_Headroom_Energy_Constraint = [((''Battery'', 1), Rel_Le 0 10)],
      Storage_Generic_Max_Footroom_Energy_Constraint = [((''Battery'', 1), Rel_Le 0 90)],
      Storage_Generic_Energy_Tracking_Constraint = [((''Battery'', 1), Constraint_Skip)],
      Max_Energy_in_Generic_Storage_Constraint = [((''Battery'', 1), Rel_Le 10 10)]\<rparr>"

definition local_capacity_example :: local_capacity_model where
  "local_capacity_example =
     \<lparr>LOCAL_CAPACITY_ZONES = [''Local_Zone''],
      LOCAL_CAPACITY_ZONE_PERIODS_WITH_REQUIREMENT = [(''Local_Zone'', 2020), (''Local_Zone'', 2030)],
      local_capacity_requirement_mw = [(''Local_Zone'', 2020) \<mapsto> 30, (''Local_Zone'', 2030) \<mapsto> 60],
      local_capacity_shortage_penalty_per_mw = [''Local_Zone'' \<mapsto> 1000],
      Local_Capacity_Shortage_MW = (\<lambda>k. 0),
      local_capacity_provision =
        [''Total_Local_Capacity_Contribution_MW'' \<mapsto>
           [(''Local_Zone'', 2020) \<mapsto> 40, (''Local_Zone'', 2030) \<mapsto> 40]]\<rparr>"

definition local_capacity_example_d :: dynamic_components where
  "local_capacity_example_d =
     \<lparr>headroom_variables = Map.empty, footroom_variables = Map.empty,
      total_cost_components = [],
      local_capacity_balance_provision_components = [''Total_Local_Capacity_Contribution_MW''],
      capacity_type_operational_period_sets = []\<rparr>"






section \<open>Lemmas on the error monad and the constraint blocks\<close>

lemma bindE_Inr_iff: "bindE x f = Inr y \<longleftrightarrow> (\<exists>v. x = Inr v \<and> f v = Inr y)"
  by (cases x) (simp_all add: bindE_def)

lemma bindE_Inr [simp]: "bindE (Inr v) f = f v"
  by (simp add: bindE_def)

lemma bindE_Inl [simp]: "bindE (Inl e) f = Inl e"
  by (simp add: bindE_def)

lemma getitem_Inr_iff: "getitem m k = Inr v \<longleftrightarrow> m k = Some v"
  by (simp add: getitem_def split: option.splits)


lemma getvar_Inr_iff: "getvar idx val k = Inr v \<longleftrightarrow> k \<in> set idx \<and> v = val k"
  by (auto simp: getvar_def)

lemma not_none_Inr_iff: "not_none x = Inr v \<longleftrightarrow> x = Some v"
  by (simp add: not_none_def split: option.splits)

lemma divE_Inr_iff: "divE a b = Inr q \<longleftrightarrow> b \<noteq> 0 \<and> q = a / b"
  by (auto simp: divE_def)

lemma mapE_Inr_iff: "mapE f xs = Inr ys \<longleftrightarrow> list_all2 (\<lambda>x y. f x = Inr y) xs ys"
proof (induction xs arbitrary: ys)
  case Nil
  show ?case by auto
next
  case (Cons x xs)
  show ?case
  proof (cases ys)
    case Nil
    then show ?thesis by (simp split: sum.splits)
  next
    case (Cons y ys')
    have "mapE f (x # xs) = Inr (y # ys') \<longleftrightarrow> f x = Inr y \<and> mapE f xs = Inr ys'"
      by (auto split: sum.splits)
    then show ?thesis using Cons Cons.IH [of ys'] by simp
  qed
qed

lemma foldl_plus_sum_list: "foldl (+) (a::real) vs = a + sum_list vs"
  by (induction vs arbitrary: a) simp_all

lemma sumE_Inr_iff:
  "sumE f xs = Inr s \<longleftrightarrow> (\<exists>vs. list_all2 (\<lambda>x v. f x = Inr v) xs vs \<and> s = sum_list vs)"
  by (auto simp: sumE_def bindE_Inr_iff mapE_Inr_iff foldl_plus_sum_list)

lemma sumE_Inr_defined: "sumE f xs = Inr s \<Longrightarrow> x \<in> set xs \<Longrightarrow> \<exists>v. f x = Inr v"
  by (auto simp: sumE_Inr_iff list_all2_conv_all_nth in_set_conv_nth)

lemma sumE_Inr_value:
  assumes "sumE f xs = Inr s" and "\<And>x v. x \<in> set xs \<Longrightarrow> f x = Inr v \<Longrightarrow> v = g x"
  shows "s = sum_list (map g xs)"
proof -
  from assms(1) obtain vs where vs: "list_all2 (\<lambda>x v. f x = Inr v) xs vs" and s: "s = sum_list vs"
    by (auto simp: sumE_Inr_iff)
  from vs assms(2) have "vs = map g xs"
    by (induction xs vs rule: list_all2_induct) auto
  with s show ?thesis by simp
qed

lemma sumE_Inr_intro:
  assumes "\<And>x. x \<in> set xs \<Longrightarrow> f x = Inr (g x)"
  shows "sumE f xs = Inr (sum_list (map g xs))"
proof -
  have "list_all2 (\<lambda>x v. f x = Inr v) xs (map g xs)"
    using assms by (simp add: list_all2_conv_all_nth)
  then show ?thesis by (auto simp: sumE_Inr_iff)
qed

lemma Constraint_block_Inr_iff:
  "Constraint_block idx rule = Inr cs \<longleftrightarrow>
     map fst cs = idx \<and> list_all (\<lambda>(i, c). rule i = Inr c) cs"
proof -
  have "list_all2 (\<lambda>i y. bindE (rule i) (\<lambda>c. Inr (i, c)) = Inr y) idx cs \<longleftrightarrow>
        map fst cs = idx \<and> list_all (\<lambda>(i, c). rule i = Inr c) cs"
  proof (induction idx arbitrary: cs)
    case Nil
    show ?case by auto
  next
    case (Cons i idx)
    show ?case
    proof (cases cs)
      case Nil
      then show ?thesis by simp
    next
      case (Cons c cs')
      then show ?thesis
        using Cons.IH [of cs'] by (cases c) (auto simp: bindE_Inr_iff)
    qed
  qed
  then show ?thesis by (simp add: Constraint_block_def mapE_Inr_iff)
qed

lemma Constraint_block_member:
  assumes "Constraint_block idx rule = Inr cs" and "i \<in> set idx"
  shows "\<exists>c. rule i = Inr c \<and> (i, c) \<in> set cs"
proof -
  from assms have "i \<in> fst ` set cs" and all: "list_all (\<lambda>(i, c). rule i = Inr c) cs"
    by (auto simp: Constraint_block_Inr_iff)
  then obtain c where "(i, c) \<in> set cs" by auto
  with all show ?thesis by (auto simp: list_all_iff)
qed

lemma Constraint_block_rule:
  assumes "Constraint_block idx rule = Inr cs" and "(i, c) \<in> set cs"
  shows "rule i = Inr c \<and> i \<in> set idx"
  using assms by (force simp: Constraint_block_Inr_iff list_all_iff)

lemma Constraint_block_intro:
  assumes "\<And>i. i \<in> set idx \<Longrightarrow> rule i = Inr (g i)"
  shows "Constraint_block idx rule = Inr (map (\<lambda>i. (i, g i)) idx)"
  using assms by (simp add: Constraint_block_Inr_iff list_all_iff comp_def)


section \<open>Binary retirement: the retirement decision is kept forever\<close>













section \<open>Binary retirement: capacity and annualised cost\<close>

text \<open>
  C2. For a project and operational period of the \<open>gen_ret_bin\<close> type, the capacity
  is the specified capacity times \<open>1 - retire[g, p]\<close>, and the capacity cost is the
  fixed cost per MW-year times the specified capacity times \<open>1 - retire[g, p]\<close>.
  With 100 MW and a fixed cost of 10 in two periods and retirement 0 then 1, the
  capacity is 100 then 0 and the cost 1000 then 0.
\<close>

theorem gen_ret_bin_capacity_and_cost:
  "((g, p) \<in> set (GEN_RET_BIN_OPR_PRDS m) \<and>
    gen_ret_bin_capacity_mw m (g, p) = Some cap \<and>
    gen_ret_bin_fixed_cost_per_mw_yr m (g, p) = Some cost \<longrightarrow>
      capacity_rule m g p = Inr (cap * (1 - GenRetBin_Retire m (g, p))) \<and>
      capacity_cost_rule m g p = Inr (cost * cap * (1 - GenRetBin_Retire m (g, p))))
   \<and> map (capacity_rule retire_in_period_2 ''Gas_CCGT'') [1, 2] = [Inr 100, Inr 0]
   \<and> map (capacity_cost_rule retire_in_period_2 ''Gas_CCGT'') [1, 2] = [Inr 1000, Inr 0]"
  by (simp add: capacity_rule_def capacity_cost_rule_def Retire_def getvar_def getitem_def
      retire_in_period_2_def)

theorem gen_ret_bin_capacity_and_cost_witness:
  "(''Gas_CCGT'', 2) \<in> set (GEN_RET_BIN_OPR_PRDS retire_in_period_2)
   \<and> gen_ret_bin_capacity_mw retire_in_period_2 (''Gas_CCGT'', 2) = Some 100
   \<and> gen_ret_bin_fixed_cost_per_mw_yr retire_in_period_2 (''Gas_CCGT'', 2) = Some 10
   \<and> GenRetBin_Retire retire_in_period_2 (''Gas_CCGT'', 2) = 1
   \<and> capacity_rule retire_in_period_2 ''Gas_CCGT'' 2 = Inr 0
   \<and> capacity_cost_rule retire_in_period_2 ''Gas_CCGT'' 2 = Inr 0"
proof -
  have h: "(''Gas_CCGT'', 2) \<in> set (GEN_RET_BIN_OPR_PRDS retire_in_period_2)"
    "gen_ret_bin_capacity_mw retire_in_period_2 (''Gas_CCGT'', 2) = Some 100"
    "gen_ret_bin_fixed_cost_per_mw_yr retire_in_period_2 (''Gas_CCGT'', 2) = Some 10"
    and r: "GenRetBin_Retire retire_in_period_2 (''Gas_CCGT'', 2) = 1"
    by (simp_all add: retire_in_period_2_def)
  from gen_ret_bin_capacity_and_cost [of "''Gas_CCGT''" 2 retire_in_period_2 100 10] h
  have "capacity_rule retire_in_period_2 ''Gas_CCGT'' 2 =
          Inr (100 * (1 - GenRetBin_Retire retire_in_period_2 (''Gas_CCGT'', 2)))"
    and "capacity_cost_rule retire_in_period_2 ''Gas_CCGT'' 2 =
          Inr (10 * 100 * (1 - GenRetBin_Retire retire_in_period_2 (''Gas_CCGT'', 2)))"
    by blast+
  with h r show ?thesis by simp
qed


section \<open>Binary retirement: loading the inputs\<close>

lemma period_params_rows_fst:
  "fst (period_params_rows gens rows (gpl, cd, fd)) =
     gpl @ map (\<lambda>(prj, prd, cap, cost). (prj, prd)) (filter (\<lambda>(prj, prd, cap, cost). prj \<in> set gens) rows)"
  by (induction gens rows "(gpl, cd, fd)" arbitrary: gpl cd fd rule: period_params_rows.induct)
    auto

lemma determine_period_params_eq:
  "determine_period_params projects_tab rows =
     (if {g \<in> set (determine_gen_ret_bin_projects projects_tab).
            g \<notin> (\<lambda>(prj, prd, cap, cost). prj) ` set rows} \<noteq> {}
      then Inl (ValueError_missing_inputs
             {g \<in> set (determine_gen_ret_bin_projects projects_tab).
                g \<notin> (\<lambda>(prj, prd, cap, cost). prj) ` set rows})
      else Inr (period_params_rows (determine_gen_ret_bin_projects projects_tab) rows
                  ([], Map.empty, Map.empty)))"
proof -
  let ?gens = "determine_gen_ret_bin_projects projects_tab"
  let ?res = "period_params_rows ?gens rows ([], Map.empty, Map.empty)"
  have "set (filter (\<lambda>g. g \<notin> set (map fst (fst ?res))) (remdups ?gens)) =
        {g \<in> set ?gens. g \<notin> (\<lambda>(prj, prd, cap, cost). prj) ` set rows}"
    by (force simp: period_params_rows_fst)
  then show ?thesis
    unfolding determine_period_params_def Let_def
    by (metis (no_types, lifting) set_empty)
qed

text \<open>
  C9, as the spec states it, fails: a project with rows for some of the periods only
  loads without an error, and the error of a project without any row carries the
  projects and no period.
\<close>

theorem gen_ret_bin_load_missing_period_counterexample:
  "missing_period_data [(''Gas_CCGT'', 2020, 100, 10)] [(''Gas_CCGT'', 2020), (''Gas_CCGT'', 2030)]
   \<and> gen_ret_bin_load_module_specific_data [(''Gas_CCGT'', ''gen_ret_bin'')]
        [(''Gas_CCGT'', 2020, 100, 10)] =
       Inr ([(''Gas_CCGT'', 2020)], [(''Gas_CCGT'', 2020) \<mapsto> 100], [(''Gas_CCGT'', 2020) \<mapsto> 10])
   \<and> gen_ret_bin_load_module_specific_data [(''Gas_CCGT'', ''gen_ret_bin'')] [] =
       Inl (ValueError_missing_inputs {''Gas_CCGT''})"
  by (simp add: missing_period_data_def gen_ret_bin_load_module_specific_data_def
      determine_period_params_def determine_gen_ret_bin_projects_def)

text \<open>
  C9, amended. Loading the inputs of the \<open>gen_ret_bin\<close> type fails exactly when a
  project of the type has no row at all in the period parameters; the error carries
  the set of these projects. Otherwise loading returns the project-period pairs of
  the rows of the projects of the type, in the order of the file, as the operational
  periods.
\<close>

theorem gen_ret_bin_load_fails_only_without_any_row:
  "gen_ret_bin_load_module_specific_data projects_tab rows =
     (if {g \<in> set (determine_gen_ret_bin_projects projects_tab).
            g \<notin> (\<lambda>(prj, prd, cap, cost). prj) ` set rows} \<noteq> {}
      then Inl (ValueError_missing_inputs
             {g \<in> set (determine_gen_ret_bin_projects projects_tab).
                g \<notin> (\<lambda>(prj, prd, cap, cost). prj) ` set rows})
      else Inr (period_params_rows (determine_gen_ret_bin_projects projects_tab) rows
                  ([], Map.empty, Map.empty)))
   \<and> fst (period_params_rows (determine_gen_ret_bin_projects projects_tab) rows
            ([], Map.empty, Map.empty)) =
       map (\<lambda>(prj, prd, cap, cost). (prj, prd))
         (filter (\<lambda>(prj, prd, cap, cost). prj \<in> set (determine_gen_ret_bin_projects projects_tab))
            rows)"
proof -
  have "gen_ret_bin_load_module_specific_data projects_tab rows =
          determine_period_params projects_tab rows"
    by (cases "determine_period_params projects_tab rows")
      (simp_all add: gen_ret_bin_load_module_specific_data_def)
  then show ?thesis
    by (simp only: determine_period_params_eq period_params_rows_fst append_Nil simp_thms)
qed


section \<open>Demand response: energy balance and energy budget on a horizon\<close>

lemma mapE_member:
  assumes "mapE f xs = Inr ys" and "x \<in> set xs"
  shows "\<exists>y. f x = Inr y \<and> y \<in> set ys"
  using assms by (auto simp: mapE_Inr_iff list_all2_conv_all_nth in_set_conv_nth)

lemma DR_OPR_HRZS_member:
  assumes "DR_OPR_HRZS m = Inr hrzs"
    and "(p, tmp) \<in> set (PROJECT_OPERATIONAL_TIMEPOINTS m)" and "p \<in> set (DR m)"
    and "balancing_type_project m p = Some bt"
    and "horizon_by_balancing_type m (tmp, bt) = Some h"
  shows "(p, h) \<in> set hrzs"
proof -
  let ?f = "\<lambda>(g, tmp).
             bindE (getitem (balancing_type_project m) g) (\<lambda>bt.
             bindE (getitem (horizon_by_balancing_type m) (tmp, bt)) (\<lambda>h. Inr (g, h)))"
  let ?xs = "filter (\<lambda>(g, tmp). g \<in> set (DR m)) (PROJECT_OPERATIONAL_TIMEPOINTS m)"
  from assms(1) obtain ghs where ghs: "mapE ?f ?xs = Inr ghs" and hrzs: "hrzs = remdups ghs"
    by (auto simp: DR_OPR_HRZS_def bindE_Inr_iff)
  have "(p, tmp) \<in> set ?xs" using assms(2,3) by simp
  from mapE_member [OF ghs this] obtain y where y: "?f (p, tmp) = Inr y" "y \<in> set ghs"
    by blast
  have "?f (p, tmp) = Inr (p, h)"
    using assms(4,5) by (simp add: getitem_def)
  with y hrzs show ?thesis by simp
qed

lemma energy_balance_rule_Inr:
  assumes "energy_balance_rule m p h = Inr c"
  shows "\<exists>tmps. TIMEPOINTS_ON_HORIZON m h = Some tmps \<and>
           c = Rel_Eq (\<Sum>t\<leftarrow>tmps. DR_Shift_Up_MW m (p, t)) (\<Sum>t\<leftarrow>tmps. DR_Shift_Down_MW m (p, t))"
proof -
  from assms obtain tmps up down where
    tmps: "TIMEPOINTS_ON_HORIZON m h = Some tmps"
    and up: "sumE (\<lambda>tmp. getvar (DR_OPR_TMPS m) (DR_Shift_Up_MW m) (p, tmp)) tmps = Inr up"
    and down: "sumE (\<lambda>tmp. getvar (DR_OPR_TMPS m) (DR_Shift_Down_MW m) (p, tmp)) tmps = Inr down"
    and c: "c = Rel_Eq up down"
    by (auto simp: energy_balance_rule_def bindE_Inr_iff getitem_Inr_iff)
  have "up = (\<Sum>t\<leftarrow>tmps. DR_Shift_Up_MW m (p, t))"
    by (rule sumE_Inr_value [OF up]) (simp add: getvar_Inr_iff)
  moreover have "down = (\<Sum>t\<leftarrow>tmps. DR_Shift_Down_MW m (p, t))"
    by (rule sumE_Inr_value [OF down]) (simp add: getvar_Inr_iff)
  ultimately show ?thesis using tmps c by simp
qed

lemma energy_budget_rule_Inr:
  assumes "energy_budget_rule m p h = Inr c"
  shows "\<exists>tmps ft prd budget. TIMEPOINTS_ON_HORIZON m h = Some tmps \<and>
           list_all (\<lambda>t. number_of_hours_in_timepoint m t \<noteq> None) tmps \<and>
           first_horizon_timepoint m h = Inr ft \<and> period m ft = Some prd \<and>
           Energy_Capacity_MWh m (p, prd) = Some budget \<and>
           c = Rel_Eq (\<Sum>t\<leftarrow>tmps. DR_Shift_Up_MW m (p, t) * the (number_of_hours_in_timepoint m t))
                 budget"
proof -
  let ?f = "\<lambda>tmp.
              bindE (getvar (DR_OPR_TMPS m) (DR_Shift_Up_MW m) (p, tmp)) (\<lambda>up.
              bindE (getitem (number_of_hours_in_timepoint m) tmp) (\<lambda>hrs. Inr (up * hrs)))"
  from assms obtain tmps shifted ft prd budget where
    tmps: "TIMEPOINTS_ON_HORIZON m h = Some tmps"
    and sh: "sumE ?f tmps = Inr shifted"
    and rest: "first_horizon_timepoint m h = Inr ft" "period m ft = Some prd"
      "Energy_Capacity_MWh m (p, prd) = Some budget"
    and c: "c = Rel_Eq shifted budget"
    by (auto simp: energy_budget_rule_def bindE_Inr_iff getitem_Inr_iff)
  have "shifted = (\<Sum>t\<leftarrow>tmps. DR_Shift_Up_MW m (p, t) * the (number_of_hours_in_timepoint m t))"
    by (rule sumE_Inr_value [OF sh]) (auto simp: bindE_Inr_iff getvar_Inr_iff getitem_Inr_iff)
  moreover have "list_all (\<lambda>t. number_of_hours_in_timepoint m t \<noteq> None) tmps"
    unfolding list_all_iff
  proof
    fix t assume "t \<in> set tmps"
    from sumE_Inr_defined [OF sh this]
    show "number_of_hours_in_timepoint m t \<noteq> None"
      by (auto simp: bindE_Inr_iff getitem_Inr_iff)
  qed
  ultimately show ?thesis using tmps rest c by simp
qed

lemma dr_example_built:
  "dr_add_module_specific_components dr_example = Inr dr_example_components"
  by (simp add: dr_add_module_specific_components_def dr_example_def dr_example_components_def
      DR_OPR_HRZS_def DR_OPR_TMPS_def Constraint_block_def max_shift_up_rule_def
      max_shift_down_rule_def energy_balance_rule_def energy_budget_rule_def
      first_horizon_timepoint_def sumE_def getitem_def getvar_def)

text \<open>
  C4. For every project of the \<open>dr\<close> type and every horizon it operates on, the model
  that was built holds the constraint that the sum of the shift up over the
  timepoints of the horizon equals the sum of the shift down over them, and the
  constraint that the sum of the shift up times the hours of the timepoint equals
  the energy capacity of the project in the period of the horizon's first timepoint
  (the budget of the horizon); a solution that satisfies the blocks has both
  equalities.
\<close>

theorem dr_energy_balance_and_budget:
  assumes built: "dr_add_module_specific_components m = Inr comps"
    and sat_balance: "list_all (\<lambda>(i, c). satisfied c) (DR_Energy_Balance_Constraint comps)"
    and sat_budget: "list_all (\<lambda>(i, c). satisfied c) (DR_Energy_Budget_Constraint comps)"
    and opr: "(p, tmp) \<in> set (PROJECT_OPERATIONAL_TIMEPOINTS m)"
    and dr: "p \<in> set (DR m)"
    and bt: "balancing_type_project m p = Some bt"
    and hz: "horizon_by_balancing_type m (tmp, bt) = Some h"
  shows "\<exists>tmps ft prd budget.
           TIMEPOINTS_ON_HORIZON m h = Some tmps \<and>
           list_all (\<lambda>t. number_of_hours_in_timepoint m t \<noteq> None) tmps \<and>
           first_horizon_timepoint m h = Inr ft \<and> period m ft = Some prd \<and>
           Energy_Capacity_MWh m (p, prd) = Some budget \<and>
           ((p, h), Rel_Eq (\<Sum>t\<leftarrow>tmps. DR_Shift_Up_MW m (p, t))
                           (\<Sum>t\<leftarrow>tmps. DR_Shift_Down_MW m (p, t)))
             \<in> set (DR_Energy_Balance_Constraint comps) \<and>
           ((p, h), Rel_Eq (\<Sum>t\<leftarrow>tmps. DR_Shift_Up_MW m (p, t) *
                                       the (number_of_hours_in_timepoint m t)) budget)
             \<in> set (DR_Energy_Budget_Constraint comps) \<and>
           (\<Sum>t\<leftarrow>tmps. DR_Shift_Up_MW m (p, t)) = (\<Sum>t\<leftarrow>tmps. DR_Shift_Down_MW m (p, t)) \<and>
           (\<Sum>t\<leftarrow>tmps. DR_Shift_Up_MW m (p, t) * the (number_of_hours_in_timepoint m t)) = budget"
proof -
  from built obtain hrzs where
    hrzs: "DR_OPR_HRZS m = Inr hrzs"
    and bal: "Constraint_block hrzs (\<lambda>(p, h). energy_balance_rule m p h) =
                Inr (DR_Energy_Balance_Constraint comps)"
    and bud: "Constraint_block hrzs (\<lambda>(p, h). energy_budget_rule m p h) =
                Inr (DR_Energy_Budget_Constraint comps)"
    by (auto simp: dr_add_module_specific_components_def bindE_Inr_iff)
  have mem: "(p, h) \<in> set hrzs"
    by (rule DR_OPR_HRZS_member [OF hrzs opr dr bt hz])
  from Constraint_block_member [OF bal mem] obtain c1 where
    c1: "energy_balance_rule m p h = Inr c1" "((p, h), c1) \<in> set (DR_Energy_Balance_Constraint comps)"
    by auto
  from Constraint_block_member [OF bud mem] obtain c2 where
    c2: "energy_budget_rule m p h = Inr c2" "((p, h), c2) \<in> set (DR_Energy_Budget_Constraint comps)"
    by auto
  from c1(2) sat_balance have s1: "satisfied c1" by (auto simp: list_all_iff)
  from c2(2) sat_budget have s2: "satisfied c2" by (auto simp: list_all_iff)
  from energy_balance_rule_Inr [OF c1(1)] obtain tmps where
    t1: "TIMEPOINTS_ON_HORIZON m h = Some tmps"
    and e1: "c1 = Rel_Eq (\<Sum>t\<leftarrow>tmps. DR_Shift_Up_MW m (p, t)) (\<Sum>t\<leftarrow>tmps. DR_Shift_Down_MW m (p, t))"
    by blast
  from energy_budget_rule_Inr [OF c2(1)] t1 obtain ft prd budget where
    r: "list_all (\<lambda>t. number_of_hours_in_timepoint m t \<noteq> None) tmps"
      "first_horizon_timepoint m h = Inr ft" "period m ft = Some prd"
      "Energy_Capacity_MWh m (p, prd) = Some budget"
    and e2: "c2 = Rel_Eq (\<Sum>t\<leftarrow>tmps. DR_Shift_Up_MW m (p, t) * the (number_of_hours_in_timepoint m t))
                    budget"
    by auto
  from s1 e1 have "(\<Sum>t\<leftarrow>tmps. DR_Shift_Up_MW m (p, t)) = (\<Sum>t\<leftarrow>tmps. DR_Shift_Down_MW m (p, t))"
    by simp
  moreover from s2 e2
  have "(\<Sum>t\<leftarrow>tmps. DR_Shift_Up_MW m (p, t) * the (number_of_hours_in_timepoint m t)) = budget"
    by simp
  ultimately show ?thesis
    using t1 r c1(2) c2(2) e1 e2 by auto
qed

theorem dr_energy_balance_and_budget_witness:
  "dr_add_module_specific_components dr_example = Inr dr_example_components
   \<and> list_all (\<lambda>(i, c). satisfied c) (DR_Energy_Balance_Constraint dr_example_components)
   \<and> list_all (\<lambda>(i, c). satisfied c) (DR_Energy_Budget_Constraint dr_example_components)
   \<and> (''Shift_DR'', 2) \<in> set (PROJECT_OPERATIONAL_TIMEPOINTS dr_example)
   \<and> ''Shift_DR'' \<in> set (DR dr_example)
   \<and> balancing_type_project dr_example ''Shift_DR'' = Some ''day''
   \<and> horizon_by_balancing_type dr_example (2, ''day'') = Some 1
   \<and> (\<Sum>t\<leftarrow>[1, 2]. DR_Shift_Up_MW dr_example (''Shift_DR'', t)) =
       (\<Sum>t\<leftarrow>[1, 2]. DR_Shift_Down_MW dr_example (''Shift_DR'', t))
   \<and> (\<Sum>t\<leftarrow>[1, 2]. DR_Shift_Up_MW dr_example (''Shift_DR'', t) *
                      the (number_of_hours_in_timepoint dr_example t)) = 8"
proof -
  have sat: "list_all (\<lambda>(i, c). satisfied c) (DR_Energy_Balance_Constraint dr_example_components)"
    "list_all (\<lambda>(i, c). satisfied c) (DR_Energy_Budget_Constraint dr_example_components)"
    by (simp_all add: dr_example_components_def)
  have idx: "(''Shift_DR'', 2) \<in> set (PROJECT_OPERATIONAL_TIMEPOINTS dr_example)"
    "''Shift_DR'' \<in> set (DR dr_example)"
    "balancing_type_project dr_example ''Shift_DR'' = Some ''day''"
    "horizon_by_balancing_type dr_example (2, ''day'') = Some 1"
    by (simp_all add: dr_example_def)
  have tmps: "TIMEPOINTS_ON_HORIZON dr_example 1 = Some [1, 2]"
    and cap: "Energy_Capacity_MWh dr_example (''Shift_DR'', 2020) = Some 8"
    and prd: "period dr_example 1 = Some 2020"
    and ft: "first_horizon_timepoint dr_example 1 = Inr 1"
    by (simp_all add: dr_example_def first_horizon_timepoint_def)
  from dr_energy_balance_and_budget [OF dr_example_built sat idx] tmps cap prd ft
  have "(\<Sum>t\<leftarrow>[1, 2]. DR_Shift_Up_MW dr_example (''Shift_DR'', t)) =
          (\<Sum>t\<leftarrow>[1, 2]. DR_Shift_Down_MW dr_example (''Shift_DR'', t))"
    and "(\<Sum>t\<leftarrow>[1, 2]. DR_Shift_Up_MW dr_example (''Shift_DR'', t) *
                      the (number_of_hours_in_timepoint dr_example t)) = 8"
    by auto
  with dr_example_built sat idx show ?thesis by simp
qed


section \<open>Generic storage: the rules on a concrete model\<close>

lemmas storage_rule_defs =
  max_discharge_rule_def max_charge_rule_def max_headroom_power_rule_def
  max_footroom_power_rule_def max_headroom_energy_rule_def max_footroom_energy_rule_def
  energy_tracking_rule_def max_energy_in_storage_rule_def sum_reserves_def
  Discharge_def Charge_def Starting_Energy_def
  STORAGE_GENERIC_PROJECT_OPERATIONAL_TIMEPOINTS_def
  first_horizon_timepoint_def previous_timepoint_def

lemma storage_example_built:
  "storage_add_module_specific_components storage_example storage_example_d =
     Inr storage_example_components"
  by (simp add: storage_add_module_specific_components_def storage_example_def
      storage_example_d_def storage_example_components_def Constraint_block_def
      storage_rule_defs sumE_def getitem_def getvar_def getattr_def divE_def not_none_def)


section \<open>Generic storage: bounds of the state of charge\<close>

lemma max_energy_in_storage_rule_Inr:
  assumes "max_energy_in_storage_rule m s tmp = Inr c"
  shows "\<exists>prd cap. period m tmp = Some prd \<and> Energy_Capacity_MWh m (s, prd) = Some cap \<and>
           c = Rel_Le (Starting_Energy_in_Generic_Storage_MWh m (s, tmp)) cap"
  using assms
  by (auto simp: max_energy_in_storage_rule_def Starting_Energy_def bindE_Inr_iff
      getitem_Inr_iff getvar_Inr_iff)

text \<open>
  C6. For every generic-storage project and every operational timepoint, the state of
  charge is nonnegative (the domain of the variable) and the built model holds the
  constraint that it is at most the energy capacity of the project in the period of
  the timepoint.
\<close>

theorem storage_state_of_charge_bounds:
  assumes built: "storage_add_module_specific_components m d = Inr comps"
    and sat: "list_all (\<lambda>(i, c). satisfied c) (Max_Energy_in_Generic_Storage_Constraint comps)"
    and dom: "storage_variable_domains m"
    and opr: "(s, tmp) \<in> set (PROJECT_OPERATIONAL_TIMEPOINTS m)"
    and sg: "s \<in> set (STORAGE_GENERIC_PROJECTS m)"
  shows "\<exists>prd cap.
           period m tmp = Some prd \<and> Energy_Capacity_MWh m (s, prd) = Some cap \<and>
           ((s, tmp), Rel_Le (Starting_Energy_in_Generic_Storage_MWh m (s, tmp)) cap)
             \<in> set (Max_Energy_in_Generic_Storage_Constraint comps) \<and>
           0 \<le> Starting_Energy_in_Generic_Storage_MWh m (s, tmp) \<and>
           Starting_Energy_in_Generic_Storage_MWh m (s, tmp) \<le> cap"
proof -
  let ?idx = "STORAGE_GENERIC_PROJECT_OPERATIONAL_TIMEPOINTS m"
  from built have block:
    "Constraint_block ?idx (\<lambda>(s, tmp). max_energy_in_storage_rule m s tmp) =
       Inr (Max_Energy_in_Generic_Storage_Constraint comps)"
    by (auto simp: storage_add_module_specific_components_def Let_def bindE_Inr_iff)
  from opr sg have mem: "(s, tmp) \<in> set ?idx"
    by (simp add: STORAGE_GENERIC_PROJECT_OPERATIONAL_TIMEPOINTS_def)
  from Constraint_block_member [OF block mem] obtain c where
    c: "max_energy_in_storage_rule m s tmp = Inr c"
      "((s, tmp), c) \<in> set (Max_Energy_in_Generic_Storage_Constraint comps)"
    by auto
  from c(2) sat have sc: "satisfied c" by (auto simp: list_all_iff)
  from max_energy_in_storage_rule_Inr [OF c(1)] obtain prd cap where
    r: "period m tmp = Some prd" "Energy_Capacity_MWh m (s, prd) = Some cap"
      "c = Rel_Le (Starting_Energy_in_Generic_Storage_MWh m (s, tmp)) cap"
    by blast
  from dom mem have "0 \<le> Starting_Energy_in_Generic_Storage_MWh m (s, tmp)"
    by (auto simp: storage_variable_domains_def list_all_iff)
  with r c(2) sc show ?thesis by auto
qed

theorem storage_state_of_charge_bounds_witness:
  "storage_add_module_specific_components storage_example storage_example_d =
     Inr storage_example_components
   \<and> list_all (\<lambda>(i, c). satisfied c)
        (Max_Energy_in_Generic_Storage_Constraint storage_example_components)
   \<and> storage_variable_domains storage_example
   \<and> (''Battery'', 2) \<in> set (PROJECT_OPERATIONAL_TIMEPOINTS storage_example)
   \<and> ''Battery'' \<in> set (STORAGE_GENERIC_PROJECTS storage_example)
   \<and> 0 \<le> Starting_Energy_in_Generic_Storage_MWh storage_example (''Battery'', 2)
   \<and> Starting_Energy_in_Generic_Storage_MWh storage_example (''Battery'', 2) \<le> 10"
proof -
  have sat: "list_all (\<lambda>(i, c). satisfied c)
               (Max_Energy_in_Generic_Storage_Constraint storage_example_components)"
    by (simp add: storage_example_components_def)
  have dom: "storage_variable_domains storage_example"
    by (simp add: storage_variable_domains_def storage_example_def
        STORAGE_GENERIC_PROJECT_OPERATIONAL_TIMEPOINTS_def)
  have idx: "(''Battery'', 2) \<in> set (PROJECT_OPERATIONAL_TIMEPOINTS storage_example)"
    "''Battery'' \<in> set (STORAGE_GENERIC_PROJECTS storage_example)"
    by (simp_all add: storage_example_def)
  have prd: "period storage_example 2 = Some 2020"
    and cap: "Energy_Capacity_MWh storage_example (''Battery'', 2020) = Some 10"
    by (simp_all add: storage_example_def)
  from storage_state_of_charge_bounds [OF storage_example_built sat dom idx] prd cap
  have "0 \<le> Starting_Energy_in_Generic_Storage_MWh storage_example (''Battery'', 2)"
    and "Starting_Energy_in_Generic_Storage_MWh storage_example (''Battery'', 2) \<le> 10"
    by auto
  with storage_example_built sat dom idx show ?thesis by simp
qed


section \<open>Generic storage: tracking the state of charge\<close>







section \<open>Generic storage: the footroom energy rule\<close>

text \<open>
  C5. The footroom energy rule of the source sums the registered headroom variables
  and takes the power capacity for the size of the store. On a full store that
  provides 50 MW of downward reserve the model is built, every constraint of the
  source holds and the variables are in their domains, while the bound the claim
  states (footroom variables against the energy capacity) is violated.
\<close>

theorem storage_footroom_energy_rule_at_full_storage:
  "storage_add_module_specific_components full_storage_example storage_example_d =
     Inr full_storage_example_components
   \<and> storage_variable_domains full_storage_example
   \<and> max_footroom_energy_rule full_storage_example storage_example_d ''Battery'' 1 =
       Inr (Rel_Le 0 90)
   \<and> satisfied (Rel_Le 0 90)
   \<and> footroom_energy_bound_as_claimed full_storage_example storage_example_d ''Battery'' 1 =
       Inr (Rel_Le 50 0)
   \<and> \<not> satisfied (Rel_Le 50 0)"
  by (simp add: storage_add_module_specific_components_def full_storage_example_def
      storage_example_d_def full_storage_example_components_def Constraint_block_def
      storage_rule_defs footroom_energy_bound_as_claimed_def storage_variable_domains_def
      sumE_def getitem_def getvar_def getattr_def divE_def not_none_def)


section \<open>Local capacity: the balance constraint and its shortage\<close>

lemma contribution_shortage_update:
  "contribution (m\<lparr>Local_Capacity_Shortage_MW := sh\<rparr>) c k = contribution m c k"
  by (simp add: contribution_def)

lemma Total_Local_Capacity_eq:
  assumes "k \<in> set (LOCAL_CAPACITY_ZONE_PERIODS_WITH_REQUIREMENT m)"
    and "registered_contributions_defined m d k"
  shows "Total_Local_Capacity_from_All_Sources_Expression_MW m d k =
           Inr (\<Sum>c\<leftarrow>local_capacity_balance_provision_components d. contribution m c k)"
proof -
  have "sumE (\<lambda>component. bindE (getattr (local_capacity_provision m) component) (\<lambda>v. getitem v k))
          (local_capacity_balance_provision_components d) =
        Inr (sum_list (map (\<lambda>c. contribution m c k) (local_capacity_balance_provision_components d)))"
  proof (rule sumE_Inr_intro)
    fix c assume "c \<in> set (local_capacity_balance_provision_components d)"
    with assms(2) show "bindE (getattr (local_capacity_provision m) c) (\<lambda>v. getitem v k) =
                         Inr (contribution m c k)"
      by (auto simp: registered_contributions_defined_def list_all_iff contribution_def
          getattr_def getitem_def split: option.splits)
  qed
  with assms(1) show ?thesis
    by (simp add: Total_Local_Capacity_from_All_Sources_Expression_MW_def)
qed

lemma local_capacity_requirement_rule_eq:
  assumes "(z, p) \<in> set (LOCAL_CAPACITY_ZONE_PERIODS_WITH_REQUIREMENT m)"
    and "registered_contributions_defined m d (z, p)"
    and "local_capacity_requirement_mw m (z, p) = Some req"
  shows "local_capacity_requirement_rule m d z p =
           Inr (Rel_Ge ((\<Sum>c\<leftarrow>local_capacity_balance_provision_components d. contribution m c (z, p))
                        + Local_Capacity_Shortage_MW m (z, p)) req)"
  using assms Total_Local_Capacity_eq [OF assms(1,2)]
  by (simp add: local_capacity_requirement_rule_def getvar_def getitem_def)

text \<open>
  C7. For every local capacity zone and period with a requirement, where the
  registered provision components are on the model and the requirement is given, the
  built block holds the constraint that the sum of the registered components at
  \<open>(z, p)\<close> plus the shortage at \<open>(z, p)\<close> is at least the requirement at \<open>(z, p)\<close>.
  The shortage is a variable over the same index set within the nonnegative reals,
  so some shortage in its domain satisfies every constraint of the block, whatever
  the registered components contribute.
\<close>

theorem local_capacity_balance_with_shortage:
  assumes wf: "list_all (\<lambda>k. registered_contributions_defined m d k \<and>
                            local_capacity_requirement_mw m k \<noteq> None)
                 (LOCAL_CAPACITY_ZONE_PERIODS_WITH_REQUIREMENT m)"
  shows "local_capacity_add_model_components m d =
           Inr (map (\<lambda>k. (k, Rel_Ge
                     ((\<Sum>c\<leftarrow>local_capacity_balance_provision_components d. contribution m c k)
                        + Local_Capacity_Shortage_MW m k)
                     (the (local_capacity_requirement_mw m k))))
                  (LOCAL_CAPACITY_ZONE_PERIODS_WITH_REQUIREMENT m))
         \<and> (\<exists>shortage cs.
               local_capacity_variable_domains (m\<lparr>Local_Capacity_Shortage_MW := shortage\<rparr>) \<and>
               local_capacity_add_model_components (m\<lparr>Local_Capacity_Shortage_MW := shortage\<rparr>) d
                 = Inr cs \<and>
               list_all (\<lambda>(k, c). satisfied c) cs)"
proof -
  let ?idx = "LOCAL_CAPACITY_ZONE_PERIODS_WITH_REQUIREMENT m"
  let ?total = "\<lambda>m k. \<Sum>c\<leftarrow>local_capacity_balance_provision_components d. contribution m c k"
  let ?con = "\<lambda>m k. Rel_Ge (?total m k + Local_Capacity_Shortage_MW m k)
                       (the (local_capacity_requirement_mw m k))"
  have built: "local_capacity_add_model_components m' d = Inr (map (\<lambda>k. (k, ?con m' k)) ?idx)"
    if same: "LOCAL_CAPACITY_ZONE_PERIODS_WITH_REQUIREMENT m' = ?idx"
      "local_capacity_provision m' = local_capacity_provision m"
      "local_capacity_requirement_mw m' = local_capacity_requirement_mw m" for m'
  proof -
    have "(case k of (z, p) \<Rightarrow> local_capacity_requirement_rule m' d z p) = Inr (?con m' k)"
      if k: "k \<in> set ?idx" for k
    proof -
      obtain z p where zp: "k = (z, p)" by (cases k)
      from wf k same have "registered_contributions_defined m' d k"
        and "local_capacity_requirement_mw m' k \<noteq> None"
        by (auto simp: list_all_iff registered_contributions_defined_def)
      then show ?thesis
        using local_capacity_requirement_rule_eq [of z p m' d] k same zp by auto
    qed
    then show ?thesis
      unfolding local_capacity_add_model_components_def same(1) [symmetric]
      using same(1) by (intro Constraint_block_intro) simp
  qed
  let ?sh = "\<lambda>k. max 0 (the (local_capacity_requirement_mw m k) - ?total m k)"
  let ?m' = "m\<lparr>Local_Capacity_Shortage_MW := ?sh\<rparr>"
  have dom: "local_capacity_variable_domains ?m'"
    by (simp add: local_capacity_variable_domains_def list_all_iff)
  have b': "local_capacity_add_model_components ?m' d = Inr (map (\<lambda>k. (k, ?con ?m' k)) ?idx)"
    by (rule built) simp_all
  have sat: "list_all (\<lambda>(k, c). satisfied c) (map (\<lambda>k. (k, ?con ?m' k)) ?idx)"
    by (auto simp: list_all_iff contribution_shortage_update)
  have "local_capacity_add_model_components m d = Inr (map (\<lambda>k. (k, ?con m k)) ?idx)"
    by (rule built) simp_all
  with dom b' sat show ?thesis by blast
qed

theorem local_capacity_balance_with_shortage_witness:
  "list_all (\<lambda>k. registered_contributions_defined local_capacity_example local_capacity_example_d k \<and>
                 local_capacity_requirement_mw local_capacity_example k \<noteq> None)
     (LOCAL_CAPACITY_ZONE_PERIODS_WITH_REQUIREMENT local_capacity_example)
   \<and> local_capacity_add_model_components local_capacity_example local_capacity_example_d =
       Inr [((''Local_Zone'', 2020), Rel_Ge (40 + 0) 30), ((''Local_Zone'', 2030), Rel_Ge (40 + 0) 60)]"
proof -
  have wf: "list_all (\<lambda>k. registered_contributions_defined local_capacity_example local_capacity_example_d k \<and>
                 local_capacity_requirement_mw local_capacity_example k \<noteq> None)
     (LOCAL_CAPACITY_ZONE_PERIODS_WITH_REQUIREMENT local_capacity_example)"
    by (simp add: registered_contributions_defined_def local_capacity_example_def
        local_capacity_example_d_def)
  from local_capacity_balance_with_shortage [OF wf]
  have "local_capacity_add_model_components local_capacity_example local_capacity_example_d =
       Inr [((''Local_Zone'', 2020), Rel_Ge (40 + 0) 30), ((''Local_Zone'', 2030), Rel_Ge (40 + 0) 60)]"
    by (simp add: local_capacity_example_def local_capacity_example_d_def contribution_def)
  with wf show ?thesis by simp
qed


section \<open>The objective: the sum of the registered cost components\<close>









section \<open>Demand response: auxiliary cost rules\<close>

text \<open>
  C10. For every project and timepoint, \<open>fuel_burn_rule\<close> and
  \<open>startup_shutdown_rule\<close> of the \<open>dr\<close> operational type raise a
  \<open>ValueError\<close> and return no value. \<open>fuel_burn_rule\<close> raises the message that
  names the project when the project is a fuel project and the caller's message
  otherwise; \<open>startup_shutdown_rule\<close> raises, in every case, the message that names
  the project.
\<close>

theorem dr_fuel_burn_and_startup_shutdown_raise:
  "fuel_burn_rule m p tmp error_message =
     Inl (ValueError
       (if p \<in> set (FUEL_PROJECTS m) then
          ''ERROR! Shiftable load projects should not use fuel.'' @ newline @
          ''Check input data for project '' @ squote @ p @ squote @ newline @
          ''and change its fuel to '.' (no value).''
        else error_message))
   \<and> (\<forall>v. fuel_burn_rule m p tmp error_message \<noteq> Inr v)
   \<and> startup_shutdown_rule m p tmp =
     Inl (ValueError
       (''ERROR! Shiftable load projects should not incur startup/shutdown costs.'' @ newline @
        ''Check input data for project '' @ squote @ p @ squote @ newline @
        ''and change its startup/shutdown costs to '.' (no value).''))
   \<and> (\<forall>v. startup_shutdown_rule m p tmp \<noteq> Inr v)"
  by (simp add: fuel_burn_rule_def startup_shutdown_rule_def)

end
